theory Spec2Isabelle
  imports Complex_Main
begin

section \<open>Time\<close>

text \<open>
  Python's \<^verbatim>\<open>datetime\<close> and \<^verbatim>\<open>timedelta\<close> hold whole microseconds. A point in time is
  the number of microseconds since a fixed epoch, a duration is a (possibly negative) number of
  microseconds, and \<^verbatim>\<open>datetime.now()\<close> is an argument of every operation that reads the clock.
\<close>

type_synonym datetime = int
type_synonym timedelta = int

definition minutes :: "int \<Rightarrow> timedelta" where
  "minutes n = n * 60000000"

definition total_seconds :: "timedelta \<Rightarrow> real" where
  "total_seconds d = real_of_int d / 1000000"

subsection \<open>Printing a duration\<close>

text \<open>
  \<^verbatim>\<open>str(timedelta)\<close> prints \<^verbatim>\<open>[D day[s], ]H:MM:SS[.ffffff]\<close> from the normalised fields
  (days of any sign, \<^verbatim>\<open>0 <= seconds < 86400\<close>, \<^verbatim>\<open>0 <= microseconds < 1000000\<close>).
\<close>

definition digit_char :: "nat \<Rightarrow> char" where
  "digit_char n = ''0123456789'' ! (n mod 10)"

fun fmt_nat :: "nat \<Rightarrow> string" where
  "fmt_nat n = (if n < 10 then [digit_char n] else fmt_nat (n div 10) @ [digit_char n])"

declare fmt_nat.simps [simp del]

definition fmt_d :: "int \<Rightarrow> string" where
  "fmt_d i = (if i < 0 then CHR ''-'' # fmt_nat (nat (- i)) else fmt_nat (nat i))"

definition fmt_0d :: "nat \<Rightarrow> int \<Rightarrow> string" where
  "fmt_0d w i = (let s = fmt_nat (nat i) in replicate (w - length s) CHR ''0'' @ s)"

definition str_timedelta :: "timedelta \<Rightarrow> string" where
  "str_timedelta d =
     (let days = d div 86400000000;
          seconds = (d mod 86400000000) div 1000000;
          microseconds = (d mod 86400000000) mod 1000000;
          mm = seconds div 60; ss = seconds mod 60;
          hh = mm div 60; mm = mm mod 60;
          s = fmt_d hh @ '':'' @ fmt_0d 2 mm @ '':'' @ fmt_0d 2 ss;
          s = (if days \<noteq> 0
               then fmt_d days @ '' day'' @ (if \<bar>days\<bar> \<noteq> 1 then ''s'' else '''') @ '', '' @ s
               else s);
          s = (if microseconds \<noteq> 0 then s @ ''.'' @ fmt_0d 6 microseconds else s)
      in s)"

definition split_dot_first :: "string \<Rightarrow> string" where
  "split_dot_first s = takeWhile (\<lambda>c. c \<noteq> CHR ''.'') s"

section \<open>The eye tracker (\<^verbatim>\<open>src/core/eye_tracker.py\<close>)\<close>

record eye_tracker =
  is_running :: bool
  camera_available :: bool
  total_blinks :: int
  session_start_time :: "datetime option"
  last_blink_time :: "datetime option"
  blink_history :: "datetime list"
  should_stop :: bool
  simulation_mode :: bool

datatype eye_signal = Blink_detected | Tracking_started | Tracking_stopped

text \<open>The state \<^verbatim>\<open>__init__\<close> leaves behind.\<close>

definition eye_tracker_init :: eye_tracker where
  "eye_tracker_init =
     \<lparr> is_running = False, camera_available = False, total_blinks = 0,
       session_start_time = None, last_blink_time = None, blink_history = [],
       should_stop = False, simulation_mode = False \<rparr>"

text \<open>
  \<^verbatim>\<open>start\<close>: \<open>camera_ok\<close> is the value of
  \<^verbatim>\<open>self._initialize_camera() and self._load_cascades()\<close>, both of which catch their own
  exceptions and answer with a boolean. \<^verbatim>\<open>last_blink_time\<close> is not reset here. Arming the
  simulation timer or starting the tracking thread is taken to succeed.
\<close>

definition start :: "bool \<Rightarrow> datetime \<Rightarrow> eye_tracker \<Rightarrow> eye_tracker \<times> eye_signal list" where
  "start camera_ok now s =
     (if is_running s then (s, [])
      else (s\<lparr> camera_available := camera_ok, simulation_mode := \<not> camera_ok,
               total_blinks := 0, session_start_time := Some now, blink_history := [],
               should_stop := False, is_running := True \<rparr>,
            [Tracking_started]))"

definition stop :: "eye_tracker \<Rightarrow> eye_tracker \<times> eye_signal list" where
  "stop s =
     (if \<not> is_running s then (s, [])
      else (s\<lparr> should_stop := True, is_running := False \<rparr>, [Tracking_stopped]))"

definition reset_session :: "datetime \<Rightarrow> eye_tracker \<Rightarrow> eye_tracker" where
  "reset_session now s =
     s\<lparr> total_blinks := 0, session_start_time := Some now, blink_history := [] \<rparr>"

text \<open>
  \<^verbatim>\<open>_record_blink\<close>, with \<open>current_time\<close> the clock value it reads. Each call emits
  \<^verbatim>\<open>blink_detected\<close> once; the function gives the state it leaves.
\<close>

definition record_blink :: "datetime \<Rightarrow> eye_tracker \<Rightarrow> eye_tracker" where
  "record_blink current_time s =
     (let cutoff_time = current_time - minutes 5
      in s\<lparr> total_blinks := total_blinks s + 1,
             last_blink_time := Some current_time,
             blink_history := filter (\<lambda>t. t > cutoff_time) (blink_history s @ [current_time]) \<rparr>)"

text \<open>
  A run of emitted blinks: one call of \<^verbatim>\<open>_record_blink\<close> per timestamp, in the order of
  the list (from \<^verbatim>\<open>_simulate_blink\<close> or from the tracking loop).
\<close>

fun record_blinks :: "datetime list \<Rightarrow> eye_tracker \<Rightarrow> eye_tracker" where
  "record_blinks [] s = s"
| "record_blinks (t # ts) s = record_blinks ts (record_blink t s)"

text \<open>
  The live tracking loop's state is the count of consecutive frames without both eyes; each
  frame contributes whether two eyes were detected and the clock value a blink would record.
\<close>

definition blink_threshold :: nat where
  "blink_threshold = 5"

fun tracking_loop :: "(bool \<times> datetime) list \<Rightarrow> nat \<Rightarrow> eye_tracker \<Rightarrow> eye_tracker" where
  "tracking_loop [] eye_closed_frames s = s"
| "tracking_loop ((eyes_detected, now) # frames) eye_closed_frames s =
     (if \<not> eyes_detected then tracking_loop frames (eye_closed_frames + 1) s
      else tracking_loop frames 0
             (if eye_closed_frames \<ge> blink_threshold then record_blink now s else s))"

record eye_data =
  d_total_blinks :: int
  d_blinks_per_minute :: real
  d_session_duration :: string
  d_last_blink :: "datetime option"
  d_is_tracking :: bool
  d_camera_available :: bool
  d_simulation_mode :: bool

text \<open>
  \<^verbatim>\<open>get_current_data\<close>. The rate is Python's true division, taken here over the reals: the
  rounding of the floating-point quotient is not part of the model.
\<close>

definition session_minutes :: "datetime \<Rightarrow> datetime \<Rightarrow> real" where
  "session_minutes current_time start_time = max 1 (total_seconds (current_time - start_time) / 60)"

definition get_current_data :: "datetime \<Rightarrow> eye_tracker \<Rightarrow> eye_data" where
  "get_current_data current_time s =
     (let duration_str =
            (case session_start_time s of
               Some st \<Rightarrow> split_dot_first (str_timedelta (current_time - st))
             | None \<Rightarrow> ''00:00:00'');
          blinks_per_minute =
            (case session_start_time s of
               Some st \<Rightarrow> real_of_int (total_blinks s) / session_minutes current_time st
             | None \<Rightarrow> 0)
      in \<lparr> d_total_blinks = total_blinks s,
           d_blinks_per_minute = blinks_per_minute,
           d_session_duration = duration_str,
           d_last_blink = last_blink_time s,
           d_is_tracking = is_running s,
           d_camera_available = camera_available s,
           d_simulation_mode = simulation_mode s \<rparr>)"

section \<open>The system monitor (\<^verbatim>\<open>src/core/system_monitor.py\<close>)\<close>

text \<open>
  The exceptions a read of the host can end in. \<^verbatim>\<open>socket.error\<close> is \<^verbatim>\<open>OSError\<close>; every
  other subclass of \<^verbatim>\<open>Exception\<close> is \<open>Other_exception\<close>. A read either raises or returns.
\<close>

datatype exn = Socket_error | Other_exception

type_synonym 'a read = "exn + 'a"

record metrics =
  cpu_percent :: real
  memory_percent :: real
  memory_used_mb :: real
  memory_total_mb :: real
  disk_usage_percent :: real
  network_available :: bool
  battery_percent :: "real option"
  power_connected :: "bool option"
  process_count :: int
  boot_time :: "datetime option"

text \<open>What \<^verbatim>\<open>psutil\<close> hands back: \<^verbatim>\<open>svmem\<close>, \<^verbatim>\<open>sdiskusage\<close> and \<^verbatim>\<open>sbattery\<close>.\<close>

record svmem =
  vm_percent :: real
  vm_used :: int
  vm_total :: int

record sdiskusage =
  du_used :: int
  du_total :: int

record sbattery =
  bat_percent :: real
  bat_power_plugged :: "bool option"

text \<open>
  Everything one iteration of the monitoring loop reads from outside: the two \<^verbatim>\<open>hasattr\<close>
  tests on \<^verbatim>\<open>psutil\<close> and the outcome of each call. \<open>network_probe\<close> is the
  \<^verbatim>\<open>connect(("8.8.8.8", 53))\<close> under a three second timeout; \<open>battery_read\<close> returns
  \<open>None\<close> when the host has no battery.
\<close>

record host_reads =
  cpu_read :: "real read"
  memory_read :: "svmem read"
  has_disk_usage :: bool
  disk_read :: "sdiskusage read"
  network_probe :: "unit read"
  has_sensors_battery :: bool
  battery_read :: "sbattery option read"
  pids_read :: "nat read"

definition current_metrics_init :: metrics where
  "current_metrics_init =
     \<lparr> cpu_percent = 0, memory_percent = 0, memory_used_mb = 0, memory_total_mb = 0,
       disk_usage_percent = 0, network_available = False, battery_percent = None,
       power_connected = None, process_count = 0, boot_time = None \<rparr>"

definition get_system_info :: "datetime read \<Rightarrow> metrics \<Rightarrow> metrics" where
  "get_system_info boot m = (case boot of Inr t \<Rightarrow> m\<lparr> boot_time := Some t \<rparr> | Inl e \<Rightarrow> m)"

definition system_monitor_init :: "datetime read \<Rightarrow> metrics" where
  "system_monitor_init boot = get_system_info boot current_metrics_init"

text \<open>
  Each \<^verbatim>\<open>_update_*\<close> method wraps its read in \<^verbatim>\<open>try ... except Exception\<close>: a read that raises
  is logged and the method returns normally.
\<close>

definition update_cpu_metrics :: "host_reads \<Rightarrow> metrics \<Rightarrow> metrics" where
  "update_cpu_metrics r m =
     (case cpu_read r of Inr v \<Rightarrow> m\<lparr> cpu_percent := v \<rparr> | Inl e \<Rightarrow> m)"

definition update_memory_metrics :: "host_reads \<Rightarrow> metrics \<Rightarrow> metrics" where
  "update_memory_metrics r m =
     (case memory_read r of
        Inr memory \<Rightarrow>
          m\<lparr> memory_percent := vm_percent memory,
             memory_used_mb := real_of_int (vm_used memory) / (1024 * 1024),
             memory_total_mb := real_of_int (vm_total memory) / (1024 * 1024) \<rparr>
      | Inl e \<Rightarrow> m)"

text \<open>A disk of total size zero makes the division raise, which the same handler catches.\<close>

definition update_disk_metrics :: "host_reads \<Rightarrow> metrics \<Rightarrow> metrics" where
  "update_disk_metrics r m =
     (if has_disk_usage r then
        (case disk_read r of
           Inr disk \<Rightarrow>
             (if du_total disk = 0 then m
              else m\<lparr> disk_usage_percent :=
                        real_of_int (du_used disk) / real_of_int (du_total disk) * 100 \<rparr>)
         | Inl e \<Rightarrow> m)
      else m)"

definition update_network_status :: "host_reads \<Rightarrow> metrics \<Rightarrow> metrics" where
  "update_network_status r m =
     (case network_probe r of
        Inr u \<Rightarrow> m\<lparr> network_available := True \<rparr>
      | Inl Socket_error \<Rightarrow> m\<lparr> network_available := False \<rparr>
      | Inl Other_exception \<Rightarrow> m\<lparr> network_available := False \<rparr>)"

definition update_battery_metrics :: "host_reads \<Rightarrow> metrics \<Rightarrow> metrics" where
  "update_battery_metrics r m =
     (if has_sensors_battery r then
        (case battery_read r of
           Inr (Some battery) \<Rightarrow>
             m\<lparr> battery_percent := Some (bat_percent battery),
                power_connected := bat_power_plugged battery \<rparr>
         | Inr None \<Rightarrow> m\<lparr> battery_percent := None, power_connected := Some True \<rparr>
         | Inl e \<Rightarrow> m)
      else m)"

definition update_process_count :: "host_reads \<Rightarrow> metrics \<Rightarrow> metrics" where
  "update_process_count r m =
     (case pids_read r of Inr n \<Rightarrow> m\<lparr> process_count := int n \<rparr> | Inl e \<Rightarrow> m)"

text \<open>
  One iteration of \<^verbatim>\<open>_monitoring_loop\<close>: the six updates in the source's order, then the
  copy of the dictionary that \<^verbatim>\<open>metrics_updated\<close> carries.
\<close>

definition monitoring_tick :: "host_reads \<Rightarrow> metrics \<Rightarrow> metrics \<times> metrics" where
  "monitoring_tick r m =
     (let m = update_cpu_metrics r m;
          m = update_memory_metrics r m;
          m = update_disk_metrics r m;
          m = update_network_status r m;
          m = update_battery_metrics r m;
          m = update_process_count r m
      in (m, m))"

text \<open>
  The loop runs one tick per element of the list (the iterations that happen before
  \<^verbatim>\<open>should_stop\<close> is seen) and yields the final dictionary and the emitted snapshots.
\<close>

fun monitoring_loop :: "host_reads list \<Rightarrow> metrics \<Rightarrow> metrics \<times> metrics list" where
  "monitoring_loop [] m = (m, [])"
| "monitoring_loop (r # rs) m =
     (let (m1, snapshot) = monitoring_tick r m;
          (m2, snapshots) = monitoring_loop rs m1
      in (m2, snapshot # snapshots))"

definition monitor_get_current_data :: "metrics \<Rightarrow> metrics" where
  "monitor_get_current_data m = m"

section \<open>The data manager (\<^verbatim>\<open>src/core/data_manager.py\<close>)\<close>

subsection \<open>The tables\<close>

text \<open>
  One record per table of \<^verbatim>\<open>_init_database\<close>, columns in the order of the schema. The
  \<^verbatim>\<open>created_at\<close> column is filled by the database and read by no statement of the module; it
  is left out. \<^verbatim>\<open>synced\<close> is the integer column itself. A table is the list of its rows in
  insertion order; no statement deletes a row, so \<^verbatim>\<open>AUTOINCREMENT\<close> hands out
  \<open>length + 1\<close>.
\<close>

record eye_session_row =
  es_id :: int
  es_user_id :: string
  es_session_start :: datetime
  es_session_end :: "datetime option"
  es_total_blinks :: int
  es_blinks_per_minute :: real
  es_eye_strain_level :: string
  es_synced :: int

record system_metric_row =
  sm_id :: int
  sm_user_id :: string
  sm_timestamp :: datetime
  sm_cpu_percent :: real
  sm_memory_percent :: real
  sm_memory_used_mb :: real
  sm_disk_usage_percent :: real
  sm_network_available :: int
  sm_battery_percent :: "real option"
  sm_power_connected :: int
  sm_synced :: int

record blink_event_row =
  be_id :: int
  be_user_id :: string
  be_session_id :: "int option"
  be_timestamp :: datetime
  be_synced :: int

record sync_log_row =
  sl_id :: int
  sl_sync_time :: datetime
  sl_records_synced :: int
  sl_success :: int
  sl_error_message :: "string option"

record database =
  eye_sessions :: "eye_session_row list"
  system_metrics :: "system_metric_row list"
  blink_events :: "blink_event_row list"
  sync_log :: "sync_log_row list"

definition init_database :: database where
  "init_database = \<lparr> eye_sessions = [], system_metrics = [], blink_events = [], sync_log = [] \<rparr>"

text \<open>
  How one \<^verbatim>\<open>with sqlite3.connect(...)\<close> block ends: it commits, or the storage layer raises
  before the commit (connecting, executing), or the commit itself raises. Either failure rolls
  the transaction back, and the method's \<^verbatim>\<open>except Exception\<close> logs it.
\<close>

datatype sqlite = Sqlite_ok | Sqlite_error | Sqlite_commit_error

subsection \<open>The manager\<close>

record data_manager =
  db :: database
  is_syncing :: bool
  last_sync_time :: "datetime option"
  pending_sync_count :: int

text \<open>
  The signals of the class, and the call of \<^verbatim>\<open>_simulate_cloud_sync\<close> (its one second sleep
  and its random draw), in the order in which a method produces them.
\<close>

datatype effect =
    Data_saved eye_data metrics datetime
  | Sync_completed bool
  | Sync_status_changed string
  | Simulate_cloud_sync

definition data_manager_init :: data_manager where
  "data_manager_init =
     \<lparr> db = init_database, is_syncing = False, last_sync_time = None, pending_sync_count = 0 \<rparr>"

definition get_current_user_id :: string where
  "get_current_user_id = ''demo_user''"

definition truthy_flag :: "bool option \<Rightarrow> int" where
  "truthy_flag v = (if v = Some True then 1 else 0)"

definition save_session_data ::
    "sqlite \<Rightarrow> datetime \<Rightarrow> eye_data \<Rightarrow> metrics \<Rightarrow> data_manager \<Rightarrow> data_manager \<times> effect list" where
  "save_session_data out current_time eye_data system_data dm =
     (let row = \<lparr> sm_id = int (length (system_metrics (db dm))) + 1,
                  sm_user_id = get_current_user_id,
                  sm_timestamp = current_time,
                  sm_cpu_percent = cpu_percent system_data,
                  sm_memory_percent = memory_percent system_data,
                  sm_memory_used_mb = memory_used_mb system_data,
                  sm_disk_usage_percent = disk_usage_percent system_data,
                  sm_network_available = (if network_available system_data then 1 else 0),
                  sm_battery_percent = battery_percent system_data,
                  sm_power_connected = truthy_flag (power_connected system_data),
                  sm_synced = 0 \<rparr>
      in case out of
           Sqlite_ok \<Rightarrow>
             (dm\<lparr> db := (db dm)\<lparr> system_metrics := system_metrics (db dm) @ [row] \<rparr>,
                  pending_sync_count := pending_sync_count dm + 1 \<rparr>,
              [Data_saved eye_data system_data current_time])
         | Sqlite_error \<Rightarrow> (dm, [])
         | Sqlite_commit_error \<Rightarrow> (dm\<lparr> pending_sync_count := pending_sync_count dm + 1 \<rparr>, []))"

definition save_blink_event ::
    "sqlite \<Rightarrow> datetime \<Rightarrow> string \<Rightarrow> int option \<Rightarrow> data_manager \<Rightarrow> data_manager" where
  "save_blink_event out now user_id session_id dm =
     (case out of
        Sqlite_ok \<Rightarrow>
          dm\<lparr> db := (db dm)\<lparr> blink_events := blink_events (db dm) @
                  [\<lparr> be_id = int (length (blink_events (db dm))) + 1, be_user_id = user_id,
                     be_session_id = session_id, be_timestamp = now, be_synced = 0 \<rparr>] \<rparr> \<rparr>
      | Sqlite_error \<Rightarrow> dm
      | Sqlite_commit_error \<Rightarrow> dm)"

text \<open>
  \<^verbatim>\<open>start_eye_session\<close> returns the new row's id, or \<open>None\<close> after a failure. The columns
  it does not name take the defaults of the schema.
\<close>

definition start_eye_session ::
    "sqlite \<Rightarrow> datetime \<Rightarrow> string \<Rightarrow> data_manager \<Rightarrow> data_manager \<times> int option" where
  "start_eye_session out now user_id dm =
     (let session_id = int (length (eye_sessions (db dm))) + 1
      in case out of
           Sqlite_ok \<Rightarrow>
             (dm\<lparr> db := (db dm)\<lparr> eye_sessions := eye_sessions (db dm) @
                     [\<lparr> es_id = session_id, es_user_id = user_id, es_session_start = now,
                        es_session_end = None, es_total_blinks = 0, es_blinks_per_minute = 0,
                        es_eye_strain_level = ''normal'', es_synced = 0 \<rparr>] \<rparr> \<rparr>,
              Some session_id)
         | Sqlite_error \<Rightarrow> (dm, None)
         | Sqlite_commit_error \<Rightarrow> (dm, None))"

text \<open>
  \<^verbatim>\<open>end_eye_session\<close>: the \<^verbatim>\<open>UPDATE ... WHERE id = ?\<close> rewrites the rows whose id is the
  argument; an argument of \<open>None\<close> (SQL \<^verbatim>\<open>NULL\<close>) matches no row. \<open>n_blinks\<close> is the
  parameter \<^verbatim>\<open>total_blinks\<close>.
\<close>

definition end_eye_session ::
    "sqlite \<Rightarrow> datetime \<Rightarrow> int option \<Rightarrow> int \<Rightarrow> real \<Rightarrow> data_manager \<Rightarrow> data_manager" where
  "end_eye_session out now session_id n_blinks blinks_per_minute dm =
     (let strain_level =
            (if blinks_per_minute < 10 then ''high''
             else if blinks_per_minute < 15 then ''moderate''
             else ''normal'')
      in case out of
           Sqlite_ok \<Rightarrow>
             dm\<lparr> db := (db dm)\<lparr> eye_sessions :=
                     map (\<lambda>r. if Some (es_id r) = session_id
                               then r\<lparr> es_session_end := Some now,
                                       es_total_blinks := n_blinks,
                                       es_blinks_per_minute := blinks_per_minute,
                                       es_eye_strain_level := strain_level \<rparr>
                               else r)
                         (eye_sessions (db dm)) \<rparr> \<rparr>
         | Sqlite_error \<Rightarrow> dm
         | Sqlite_commit_error \<Rightarrow> dm)"

subsection \<open>Synchronisation\<close>

text \<open>\<^verbatim>\<open>_get_unsynced_count\<close> only reads; a failure of the storage layer makes it return 0.\<close>

definition get_unsynced_count :: "sqlite \<Rightarrow> database \<Rightarrow> int" where
  "get_unsynced_count out d =
     (case out of
        Sqlite_ok \<Rightarrow>
          (let metrics_count = int (length (filter (\<lambda>r. sm_synced r = 0) (system_metrics d)));
               sessions_count = int (length (filter (\<lambda>r. es_synced r = 0) (eye_sessions d)));
               blinks_count = int (length (filter (\<lambda>r. be_synced r = 0) (blink_events d)))
           in metrics_count + sessions_count + blinks_count)
      | Sqlite_error \<Rightarrow> 0
      | Sqlite_commit_error \<Rightarrow> 0)"

definition mark_records_as_synced :: "sqlite \<Rightarrow> database \<Rightarrow> database" where
  "mark_records_as_synced out d =
     (case out of
        Sqlite_ok \<Rightarrow>
          d\<lparr> system_metrics :=
                map (\<lambda>r. if sm_synced r = 0 then r\<lparr> sm_synced := 1 \<rparr> else r) (system_metrics d),
             eye_sessions :=
                map (\<lambda>r. if es_synced r = 0 then r\<lparr> es_synced := 1 \<rparr> else r) (eye_sessions d),
             blink_events :=
                map (\<lambda>r. if be_synced r = 0 then r\<lparr> be_synced := 1 \<rparr> else r) (blink_events d) \<rparr>
      | Sqlite_error \<Rightarrow> d
      | Sqlite_commit_error \<Rightarrow> d)"

definition log_sync_result ::
    "sqlite \<Rightarrow> datetime \<Rightarrow> int \<Rightarrow> bool \<Rightarrow> string option \<Rightarrow> database \<Rightarrow> database" where
  "log_sync_result out now records_synced success error_message d =
     (case out of
        Sqlite_ok \<Rightarrow>
          d\<lparr> sync_log := sync_log d @
                [\<lparr> sl_id = int (length (sync_log d)) + 1, sl_sync_time = now,
                   sl_records_synced = records_synced,
                   sl_success = (if success then 1 else 0),
                   sl_error_message = error_message \<rparr>] \<rparr>
      | Sqlite_error \<Rightarrow> d
      | Sqlite_commit_error \<Rightarrow> d)"

text \<open>
  What one call of \<^verbatim>\<open>sync_data\<close> meets outside the manager: how each of its three storage
  blocks ends, what \<^verbatim>\<open>_simulate_cloud_sync\<close> returns, and the two clock values it reads.
\<close>

record sync_env =
  count_out :: sqlite
  cloud_sync_result :: bool
  mark_out :: sqlite
  sync_time :: datetime
  log_out :: sqlite
  log_time :: datetime

text \<open>
  The \<^verbatim>\<open>try\<close> block of \<^verbatim>\<open>sync_data\<close>, entered with the flag already set. Each helper it
  calls catches its own exceptions, and neither the stand-in for the cloud nor emitting a signal
  raises, so the block's \<^verbatim>\<open>except\<close> clause has no branch here.
\<close>

definition sync_attempt :: "sync_env \<Rightarrow> data_manager \<Rightarrow> data_manager \<times> effect list" where
  "sync_attempt e dm =
     (let unsynced_count = get_unsynced_count (count_out e) (db dm)
      in if unsynced_count = 0
         then (dm, [Sync_status_changed ''Up to date'', Sync_completed True])
         else if cloud_sync_result e
         then
           (let dm = dm\<lparr> db := mark_records_as_synced (mark_out e) (db dm) \<rparr>;
                dm = dm\<lparr> last_sync_time := Some (sync_time e), pending_sync_count := 0 \<rparr>;
                dm = dm\<lparr> db := log_sync_result (log_out e) (log_time e) unsynced_count True None
                                 (db dm) \<rparr>
            in (dm, [Simulate_cloud_sync, Sync_status_changed ''Sync complete'',
                     Sync_completed True]))
         else
           (dm\<lparr> db := log_sync_result (log_out e) (log_time e) unsynced_count False
                         (Some ''Simulated failure'') (db dm) \<rparr>,
            [Simulate_cloud_sync, Sync_status_changed ''Sync failed'', Sync_completed False]))"

text \<open>
  \<^verbatim>\<open>sync_data\<close>: the guard, the flag, the \<^verbatim>\<open>try\<close> block, and the \<^verbatim>\<open>finally\<close> clause that
  clears the flag on every way out of the block.
\<close>

definition sync_data :: "sync_env \<Rightarrow> data_manager \<Rightarrow> data_manager \<times> effect list" where
  "sync_data e dm =
     (if is_syncing dm then (dm, [])
      else
        (let (dm1, effects) = sync_attempt e (dm\<lparr> is_syncing := True \<rparr>)
         in (dm1\<lparr> is_syncing := False \<rparr>, Sync_status_changed ''Syncing...'' # effects)))"

text \<open>A run of triggers (timer or manual), one after the other, with what each one emits.\<close>

fun sync_triggers :: "sync_env list \<Rightarrow> data_manager \<Rightarrow> data_manager \<times> effect list list" where
  "sync_triggers [] dm = (dm, [])"
| "sync_triggers (e # es) dm =
     (let (dm1, effects) = sync_data e dm;
          (dm2, rest) = sync_triggers es dm1
      in (dm2, effects # rest))"

text \<open>
  The three inserting operations of the store, each one a committed call of the method it
  names, and a run of them.
\<close>

datatype insert_op =
    Insert_metric_sample datetime eye_data metrics
  | Insert_blink_event datetime string "int option"
  | Open_session datetime string

fun insert_row :: "insert_op \<Rightarrow> data_manager \<Rightarrow> data_manager" where
  "insert_row (Insert_metric_sample now eye_data system_data) dm =
     fst (save_session_data Sqlite_ok now eye_data system_data dm)"
| "insert_row (Insert_blink_event now user_id session_id) dm =
     save_blink_event Sqlite_ok now user_id session_id dm"
| "insert_row (Open_session now user_id) dm = fst (start_eye_session Sqlite_ok now user_id dm)"

fun insert_rows :: "insert_op list \<Rightarrow> data_manager \<Rightarrow> data_manager" where
  "insert_rows [] dm = dm"
| "insert_rows (i # ops) dm = insert_rows ops (insert_row i dm)"

subsection \<open>Sample inputs\<close>

text \<open>Concrete states and environments on which the results below are evaluated.\<close>

definition sample_inserts :: "insert_op list" where
  "sample_inserts =
     [Open_session 1000000 ''u1'',
      Insert_blink_event 2000000 ''u1'' (Some 1),
      Insert_metric_sample 3000000 (get_current_data 3000000 eye_tracker_init)
        current_metrics_init]"

definition sample_store :: data_manager where
  "sample_store = insert_rows sample_inserts data_manager_init"

definition sample_blink_times :: "datetime list" where
  "sample_blink_times = [1000000, 120000000, 360000000, 390000000]"

definition sample_tracker :: eye_tracker where
  "sample_tracker = record_blinks sample_blink_times (fst (start False 0 eye_tracker_init))"

definition sample_sync_env :: "bool \<Rightarrow> sync_env" where
  "sample_sync_env delivered =
     \<lparr> count_out = Sqlite_ok, cloud_sync_result = delivered, mark_out = Sqlite_ok,
       sync_time = 9000000, log_out = Sqlite_ok, log_time = 9000001 \<rparr>"

definition sample_reads_offline_desktop :: host_reads where
  "sample_reads_offline_desktop =
     \<lparr> cpu_read = Inl Other_exception,
       memory_read = Inr \<lparr> vm_percent = 50, vm_used = 2097152, vm_total = 4194304 \<rparr>,
       has_disk_usage = True,
       disk_read = Inr \<lparr> du_used = 1, du_total = 4 \<rparr>,
       network_probe = Inl Socket_error,
       has_sensors_battery = True,
       battery_read = Inr None,
       pids_read = Inr 120 \<rparr>"

section \<open>The durable store\<close>

lemma count_insert_row:
  "get_unsynced_count Sqlite_ok (db (insert_row i dm)) = get_unsynced_count Sqlite_ok (db dm) + 1"
  by (cases i)
     (simp_all add: get_unsynced_count_def save_session_data_def save_blink_event_def
        start_eye_session_def Let_def)

lemma count_insert_rows:
  "get_unsynced_count Sqlite_ok (db (insert_rows ops dm))
     = get_unsynced_count Sqlite_ok (db dm) + int (length ops)"
  by (induction ops arbitrary: dm) (simp_all add: count_insert_row)

lemma count_mark:
  "get_unsynced_count Sqlite_ok (mark_records_as_synced Sqlite_ok d) = 0"
  by (simp add: get_unsynced_count_def mark_records_as_synced_def filter_map o_def)

lemma mark_fixed:
  assumes "get_unsynced_count Sqlite_ok d = 0"
  shows "mark_records_as_synced out d = d"
proof -
  from assms have "int (length (filter (\<lambda>r. sm_synced r = 0) (system_metrics d)))
      + int (length (filter (\<lambda>r. es_synced r = 0) (eye_sessions d)))
      + int (length (filter (\<lambda>r. be_synced r = 0) (blink_events d))) = 0"
    by (simp add: get_unsynced_count_def)
  then have "length (filter (\<lambda>r. sm_synced r = 0) (system_metrics d)) = 0"
       "length (filter (\<lambda>r. es_synced r = 0) (eye_sessions d)) = 0"
       "length (filter (\<lambda>r. be_synced r = 0) (blink_events d)) = 0"
    by linarith+
  then have a: "filter (\<lambda>r. sm_synced r = 0) (system_metrics d) = []"
       "filter (\<lambda>r. es_synced r = 0) (eye_sessions d) = []"
       "filter (\<lambda>r. be_synced r = 0) (blink_events d) = []"
    by simp_all
  have "map (\<lambda>r. if sm_synced r = 0 then r\<lparr> sm_synced := 1 \<rparr> else r) (system_metrics d) = system_metrics d"
    using a(1) by (simp add: filter_empty_conv map_idI)
  moreover have "map (\<lambda>r. if es_synced r = 0 then r\<lparr> es_synced := 1 \<rparr> else r) (eye_sessions d) = eye_sessions d"
    using a(2) by (simp add: filter_empty_conv map_idI)
  moreover have "map (\<lambda>r. if be_synced r = 0 then r\<lparr> be_synced := 1 \<rparr> else r) (blink_events d) = blink_events d"
    using a(3) by (simp add: filter_empty_conv map_idI)
  ultimately show ?thesis
    by (cases out) (simp_all add: mark_records_as_synced_def)
qed

text \<open>
  Claim C1. The count of unsynced records is the sum over the three tables. On a store with
  nothing unsynced, \<open>N\<close> committed inserts (of any of the three kinds, in any order) make it
  \<open>N\<close>; a committed \<^verbatim>\<open>_mark_records_as_synced\<close> makes it 0; one more insert makes it 1;
  and marking again changes no row, since only rows with \<^verbatim>\<open>synced = 0\<close> are rewritten.
\<close>

theorem count_unsynced_tracks_inserts_and_marking:
  assumes "get_unsynced_count Sqlite_ok (db dm) = 0"
  shows "get_unsynced_count Sqlite_ok (db (insert_rows ops dm)) = int (length ops)
       \<and> get_unsynced_count Sqlite_ok (mark_records_as_synced Sqlite_ok (db (insert_rows ops dm))) = 0
       \<and> get_unsynced_count Sqlite_ok
            (db (insert_row i ((insert_rows ops dm)\<lparr> db := mark_records_as_synced Sqlite_ok (db (insert_rows ops dm)) \<rparr>))) = 1
       \<and> mark_records_as_synced Sqlite_ok (mark_records_as_synced Sqlite_ok (db (insert_rows ops dm)))
            = mark_records_as_synced Sqlite_ok (db (insert_rows ops dm))
       \<and> get_unsynced_count Sqlite_ok (db (insert_rows ops dm)) =
            int (length (filter (\<lambda>r. sm_synced r = 0) (system_metrics (db (insert_rows ops dm)))))
          + int (length (filter (\<lambda>r. es_synced r = 0) (eye_sessions (db (insert_rows ops dm)))))
          + int (length (filter (\<lambda>r. be_synced r = 0) (blink_events (db (insert_rows ops dm)))))"
proof -
  have sum: "get_unsynced_count Sqlite_ok (db (insert_rows ops dm)) =
            int (length (filter (\<lambda>r. sm_synced r = 0) (system_metrics (db (insert_rows ops dm)))))
          + int (length (filter (\<lambda>r. es_synced r = 0) (eye_sessions (db (insert_rows ops dm)))))
          + int (length (filter (\<lambda>r. be_synced r = 0) (blink_events (db (insert_rows ops dm)))))"
    by (simp add: get_unsynced_count_def)
  have "get_unsynced_count Sqlite_ok (db (insert_rows ops dm)) = int (length ops)"
    using assms by (simp add: count_insert_rows)
  moreover have "get_unsynced_count Sqlite_ok
      (db (insert_row i ((insert_rows ops dm)
             \<lparr> db := mark_records_as_synced Sqlite_ok (db (insert_rows ops dm)) \<rparr>))) = 1"
    by (simp add: count_insert_row count_mark)
  moreover have "mark_records_as_synced Sqlite_ok
        (mark_records_as_synced Sqlite_ok (db (insert_rows ops dm)))
      = mark_records_as_synced Sqlite_ok (db (insert_rows ops dm))"
    by (simp add: count_mark mark_fixed)
  ultimately show ?thesis
    using sum count_mark[of "db (insert_rows ops dm)"] by blast
qed

theorem count_unsynced_tracks_inserts_and_marking_witness:
  "get_unsynced_count Sqlite_ok (db data_manager_init) = 0
   \<and> get_unsynced_count Sqlite_ok (db (insert_rows sample_inserts data_manager_init)) = 3
   \<and> get_unsynced_count Sqlite_ok
        (mark_records_as_synced Sqlite_ok (db (insert_rows sample_inserts data_manager_init))) = 0
   \<and> get_unsynced_count Sqlite_ok
        (db (insert_row (Insert_blink_event 4000000 ''u1'' (Some 1))
              ((insert_rows sample_inserts data_manager_init)
                 \<lparr> db := mark_records_as_synced Sqlite_ok
                            (db (insert_rows sample_inserts data_manager_init)) \<rparr>))) = 1"
proof -
  have h: "get_unsynced_count Sqlite_ok (db data_manager_init) = 0"
    by (simp add: data_manager_init_def init_database_def get_unsynced_count_def)
  have l: "int (length sample_inserts) = 3" by (simp add: sample_inserts_def)
  note c = count_unsynced_tracks_inserts_and_marking
      [OF h, of sample_inserts "Insert_blink_event 4000000 ''u1'' (Some 1)"]
  from c have "get_unsynced_count Sqlite_ok (db (insert_rows sample_inserts data_manager_init))
      = int (length sample_inserts)"
    by (rule conjunct1)
  with l have "get_unsynced_count Sqlite_ok (db (insert_rows sample_inserts data_manager_init)) = 3"
    by simp
  with h c show ?thesis by blast
qed

lemma end_eye_session_rows:
  "eye_sessions (db (end_eye_session Sqlite_ok now session_id n bpm dm)) =
     map (\<lambda>r. if Some (es_id r) = session_id
               then r\<lparr> es_session_end := Some now, es_total_blinks := n,
                       es_blinks_per_minute := bpm,
                       es_eye_strain_level :=
                         (if bpm < 10 then ''high'' else if bpm < 15 then ''moderate'' else ''normal'') \<rparr>
               else r)
         (eye_sessions (db dm))"
  by (simp add: end_eye_session_def)

text \<open>
  Claim C2. When \<^verbatim>\<open>end_eye_session\<close> closes session \<open>sid\<close> with rate \<open>bpm\<close>, the strain
  level stored in that session's row is decided by \<open>bpm\<close> alone: below 10 it is \<open>high\<close>,
  from 10 up to but excluding 15 it is \<open>moderate\<close>, from 15 on it is \<open>normal\<close>. The
  boundary values 10 and 15 fall under the second and third case.
\<close>

theorem strain_level_from_rate:
  assumes "r \<in> set (eye_sessions (db (end_eye_session Sqlite_ok now (Some sid) n bpm dm)))"
      and "es_id r = sid"
  shows "(bpm < 10 \<longrightarrow> es_eye_strain_level r = ''high'')
       \<and> (10 \<le> bpm \<and> bpm < 15 \<longrightarrow> es_eye_strain_level r = ''moderate'')
       \<and> (15 \<le> bpm \<longrightarrow> es_eye_strain_level r = ''normal'')"
proof -
  from assms(1) obtain r0 where r0: "r0 \<in> set (eye_sessions (db dm))"
    and r: "r = (if Some (es_id r0) = Some sid
               then r0\<lparr> es_session_end := Some now, es_total_blinks := n,
                       es_blinks_per_minute := bpm,
                       es_eye_strain_level :=
                         (if bpm < 10 then ''high'' else if bpm < 15 then ''moderate'' else ''normal'') \<rparr>
               else r0)"
    unfolding end_eye_session_rows by auto
  have "es_id r0 = sid"
  proof (rule ccontr)
    assume "es_id r0 \<noteq> sid"
    with r have "r = r0" by simp
    with assms(2) \<open>es_id r0 \<noteq> sid\<close> show False by simp
  qed
  with r have "es_eye_strain_level r =
      (if bpm < 10 then ''high'' else if bpm < 15 then ''moderate'' else ''normal'')"
    by simp
  then show ?thesis by simp
qed

lemma sample_store_sessions:
  "eye_sessions (db sample_store) =
     [\<lparr> es_id = 1, es_user_id = ''u1'', es_session_start = 1000000, es_session_end = None,
        es_total_blinks = 0, es_blinks_per_minute = 0, es_eye_strain_level = ''normal'',
        es_synced = 0 \<rparr>]"
  by (simp add: sample_store_def sample_inserts_def data_manager_init_def init_database_def
      start_eye_session_def save_blink_event_def save_session_data_def Let_def)

lemma sample_store_closed:
  "eye_sessions (db (end_eye_session Sqlite_ok 61000000 (Some 1) 10 bpm sample_store)) =
     [\<lparr> es_id = 1, es_user_id = ''u1'', es_session_start = 1000000,
        es_session_end = Some 61000000, es_total_blinks = 10, es_blinks_per_minute = bpm,
        es_eye_strain_level =
          (if bpm < 10 then ''high'' else if bpm < 15 then ''moderate'' else ''normal''),
        es_synced = 0 \<rparr>]"
  by (simp add: end_eye_session_rows sample_store_sessions)

theorem strain_level_from_rate_witness:
  "es_eye_strain_level
     (hd (eye_sessions (db (end_eye_session Sqlite_ok 61000000 (Some 1) 10 10 sample_store))))
     = ''moderate''
   \<and> es_eye_strain_level
     (hd (eye_sessions (db (end_eye_session Sqlite_ok 61000000 (Some 1) 10 15 sample_store))))
     = ''normal''
   \<and> es_eye_strain_level
     (hd (eye_sessions (db (end_eye_session Sqlite_ok 61000000 (Some 1) 10 9 sample_store))))
     = ''high''"
proof -
  let ?row = "\<lambda>bpm. hd (eye_sessions (db (end_eye_session Sqlite_ok 61000000 (Some 1) 10 bpm sample_store)))"
  have m: "\<And>bpm. ?row bpm \<in> set (eye_sessions (db (end_eye_session Sqlite_ok 61000000 (Some 1) 10 bpm sample_store)))"
    by (simp add: sample_store_closed)
  have i: "\<And>bpm. es_id (?row bpm) = 1"
    by (simp add: sample_store_closed)
  show ?thesis
    using strain_level_from_rate [OF m i, of 10] strain_level_from_rate [OF m i, of 15]
      strain_level_from_rate [OF m i, of 9]
    by simp
qed

section \<open>The sync engine\<close>

lemma attempt_flag: "is_syncing (fst (sync_attempt e dm)) = is_syncing dm"
  by (simp add: sync_attempt_def Let_def)

lemma log_grows:
  "\<exists>rows. sync_log (log_sync_result out t n b msg d) = sync_log d @ rows \<and> length rows \<le> 1"
  by (cases out) (simp_all add: log_sync_result_def)

lemma mark_log: "sync_log (mark_records_as_synced out d) = sync_log d"
  by (cases out) (simp_all add: mark_records_as_synced_def)

lemma attempt_log:
  "\<exists>rows. sync_log (db (fst (sync_attempt e dm))) = sync_log (db dm) @ rows \<and> length rows \<le> 1"
  using log_grows[of "log_out e" "log_time e" _ _ _ "db dm"]
        log_grows[of "log_out e" "log_time e" _ _ _ "mark_records_as_synced (mark_out e) (db dm)"]
  by (simp add: sync_attempt_def Let_def mark_log)

lemma sync_data_log:
  "\<exists>rows. sync_log (db (fst (sync_data e dm))) = sync_log (db dm) @ rows \<and> length rows \<le> 1"
  using attempt_log[of e "dm\<lparr>is_syncing := True\<rparr>"]
  by (simp add: sync_data_def split_beta)

text \<open>
  Claim C3. A trigger that finds the manager syncing returns at once: the manager, its store
  and its sync log are what they were and nothing is emitted. The flag is set throughout an
  attempt (in the state the \<^verbatim>\<open>try\<close> block starts in and in the state it ends in), so a
  trigger arriving there is dropped. Any one call appends at most one row to the sync log.
\<close>

theorem overlapping_trigger_dropped:
  "(is_syncing dm \<longrightarrow> sync_data e dm = (dm, []))
   \<and> (\<not> is_syncing dm \<longrightarrow>
        sync_data e' (dm\<lparr> is_syncing := True \<rparr>) = (dm\<lparr> is_syncing := True \<rparr>, [])
      \<and> sync_data e' (fst (sync_attempt e (dm\<lparr> is_syncing := True \<rparr>)))
          = (fst (sync_attempt e (dm\<lparr> is_syncing := True \<rparr>)), []))
   \<and> (\<exists>rows. sync_log (db (fst (sync_data e dm))) = sync_log (db dm) @ rows \<and> length rows \<le> 1)"
  using sync_data_log[of e dm] by (simp add: sync_data_def attempt_flag)

lemma sample_store_count: "get_unsynced_count Sqlite_ok (db sample_store) = 3"
  using count_insert_rows[of sample_inserts data_manager_init]
  by (simp add: sample_store_def)
     (simp add: sample_inserts_def data_manager_init_def init_database_def get_unsynced_count_def)

lemma sample_store_idle: "\<not> is_syncing sample_store"
  by (simp add: sample_store_def sample_inserts_def data_manager_init_def
      start_eye_session_def save_blink_event_def save_session_data_def Let_def)

lemma sample_store_log: "sync_log (db sample_store) = []"
  by (simp add: sample_store_def sample_inserts_def data_manager_init_def init_database_def
      start_eye_session_def save_blink_event_def save_session_data_def Let_def)

theorem overlapping_trigger_dropped_witness:
  "sync_data (sample_sync_env True) (sample_store\<lparr> is_syncing := True \<rparr>)
     = (sample_store\<lparr> is_syncing := True \<rparr>, [])
   \<and> sync_data (sample_sync_env True)
        (fst (sync_attempt (sample_sync_env False) (sample_store\<lparr> is_syncing := True \<rparr>)))
     = (fst (sync_attempt (sample_sync_env False) (sample_store\<lparr> is_syncing := True \<rparr>)), [])
   \<and> (\<exists>rows. sync_log (db (fst (sync_data (sample_sync_env False) sample_store))) = rows
         \<and> length rows \<le> 1)"
  using overlapping_trigger_dropped
          [of "sample_store\<lparr> is_syncing := True \<rparr>" "sample_sync_env True"]
        overlapping_trigger_dropped
          [of sample_store "sample_sync_env False" "sample_sync_env True"]
        sample_store_idle sample_store_log
  by simp

lemma count_nonzero_ok:
  "get_unsynced_count out d \<noteq> 0 \<Longrightarrow> out = Sqlite_ok"
  by (cases out) (simp_all add: get_unsynced_count_def)

lemma clear_flag: "\<not> is_syncing dm \<Longrightarrow> dm\<lparr> is_syncing := False \<rparr> = dm"
  by (cases dm) simp

lemma log_tables:
  "system_metrics (log_sync_result out t n b msg d) = system_metrics d"
  "eye_sessions (log_sync_result out t n b msg d) = eye_sessions d"
  "blink_events (log_sync_result out t n b msg d) = blink_events d"
  by (cases out; simp add: log_sync_result_def)+

lemma log_count:
  "get_unsynced_count out' (log_sync_result out t n b msg d) = get_unsynced_count out' d"
  by (cases out') (simp_all add: get_unsynced_count_def log_tables)

text \<open>
  Claim C4. An attempt that finds \<open>n > 0\<close> unsynced records and whose delivery fails leaves
  the three tables as they were (no flag is flipped, the unsynced count is still \<open>n\<close>), appends,
  when the log write commits, exactly one log row with count \<open>n\<close>, success 0 and the reason,
  emits the failure status after a single call of the delivery stand-in, and ends idle.
\<close>

theorem failed_delivery_leaves_records_unsynced:
  assumes idle: "\<not> is_syncing dm"
      and count: "get_unsynced_count (count_out e) (db dm) = n" "n \<noteq> 0"
      and failed: "\<not> cloud_sync_result e"
  shows "system_metrics (db (fst (sync_data e dm))) = system_metrics (db dm)
       \<and> eye_sessions (db (fst (sync_data e dm))) = eye_sessions (db dm)
       \<and> blink_events (db (fst (sync_data e dm))) = blink_events (db dm)
       \<and> get_unsynced_count Sqlite_ok (db (fst (sync_data e dm))) = n
       \<and> (log_out e = Sqlite_ok \<longrightarrow>
            sync_log (db (fst (sync_data e dm))) = sync_log (db dm) @
              [\<lparr> sl_id = int (length (sync_log (db dm))) + 1, sl_sync_time = log_time e,
                 sl_records_synced = n, sl_success = 0,
                 sl_error_message = Some ''Simulated failure'' \<rparr>])
       \<and> snd (sync_data e dm) =
            [Sync_status_changed ''Syncing...'', Simulate_cloud_sync,
             Sync_status_changed ''Sync failed'', Sync_completed False]
       \<and> \<not> is_syncing (fst (sync_data e dm))"
proof -
  from count have ok: "count_out e = Sqlite_ok" using count_nonzero_ok by blast
  have sd: "sync_data e dm =
      (dm\<lparr> db := log_sync_result (log_out e) (log_time e) n False (Some ''Simulated failure'') (db dm) \<rparr>,
       [Sync_status_changed ''Syncing...'', Simulate_cloud_sync,
        Sync_status_changed ''Sync failed'', Sync_completed False])"
    using idle count failed clear_flag[OF idle]
    by (simp add: sync_data_def sync_attempt_def Let_def)
  have n: "get_unsynced_count Sqlite_ok (db dm) = n" using count(1) ok by simp
  show ?thesis
    unfolding sd using idle n
    by (simp add: log_tables log_count) (simp add: log_sync_result_def)
qed

theorem failed_delivery_leaves_records_unsynced_witness:
  "get_unsynced_count Sqlite_ok (db (fst (sync_data (sample_sync_env False) sample_store))) = 3
   \<and> sync_log (db (fst (sync_data (sample_sync_env False) sample_store))) =
        [\<lparr> sl_id = 1, sl_sync_time = 9000001, sl_records_synced = 3, sl_success = 0,
           sl_error_message = Some ''Simulated failure'' \<rparr>]
   \<and> snd (sync_data (sample_sync_env False) sample_store) =
        [Sync_status_changed ''Syncing...'', Simulate_cloud_sync,
         Sync_status_changed ''Sync failed'', Sync_completed False]"
proof -
  have c: "get_unsynced_count (count_out (sample_sync_env False)) (db sample_store) = 3"
    by (simp add: sample_sync_env_def sample_store_count)
  have f: "\<not> cloud_sync_result (sample_sync_env False)"
    by (simp add: sample_sync_env_def)
  have l: "log_out (sample_sync_env False) = Sqlite_ok" "log_time (sample_sync_env False) = 9000001"
    by (simp_all add: sample_sync_env_def)
  show ?thesis
    using failed_delivery_leaves_records_unsynced [OF sample_store_idle c _ f] l sample_store_log
    by simp
qed

lemma sync_data_up_to_date:
  assumes "\<not> is_syncing dm" and "get_unsynced_count (count_out e) (db dm) = 0"
  shows "sync_data e dm =
           (dm, [Sync_status_changed ''Syncing...'', Sync_status_changed ''Up to date'',
                 Sync_completed True])"
  using assms clear_flag[OF assms(1)]
  by (simp add: sync_data_def sync_attempt_def Let_def)

lemma sync_triggers_up_to_date:
  assumes "\<not> is_syncing dm"
      and "\<forall>e\<in>set es. get_unsynced_count (count_out e) (db dm) = 0"
  shows "sync_triggers es dm =
           (dm, replicate (length es)
                  [Sync_status_changed ''Syncing...'', Sync_status_changed ''Up to date'',
                   Sync_completed True])"
  using assms(2) by (induction es) (simp_all add: sync_data_up_to_date[OF assms(1)])

text \<open>
  Claim C5. A trigger on an idle manager whose count of unsynced records comes back as zero
  leaves the manager exactly as it was (store and sync log included), ends idle and emits the
  status \<open>Up to date\<close> and success; so does every trigger of any run of such triggers.
\<close>

theorem sync_with_nothing_unsynced_is_noop:
  assumes "\<not> is_syncing dm"
      and "get_unsynced_count (count_out e) (db dm) = 0"
      and "\<forall>e'\<in>set es. get_unsynced_count (count_out e') (db dm) = 0"
  shows "sync_data e dm =
           (dm, [Sync_status_changed ''Syncing...'', Sync_status_changed ''Up to date'',
                 Sync_completed True])
       \<and> sync_triggers es dm =
           (dm, replicate (length es)
                  [Sync_status_changed ''Syncing...'', Sync_status_changed ''Up to date'',
                   Sync_completed True])"
  using sync_data_up_to_date[OF assms(1,2)] sync_triggers_up_to_date[OF assms(1,3)] by simp

theorem sync_with_nothing_unsynced_is_noop_witness:
  "sync_data (sample_sync_env True) data_manager_init =
     (data_manager_init,
      [Sync_status_changed ''Syncing...'', Sync_status_changed ''Up to date'', Sync_completed True])
   \<and> sync_triggers [sample_sync_env True, sample_sync_env False, sample_sync_env True]
        data_manager_init =
     (data_manager_init,
      [[Sync_status_changed ''Syncing...'', Sync_status_changed ''Up to date'', Sync_completed True],
       [Sync_status_changed ''Syncing...'', Sync_status_changed ''Up to date'', Sync_completed True],
       [Sync_status_changed ''Syncing...'', Sync_status_changed ''Up to date'', Sync_completed True]])"
proof -
  have i: "\<not> is_syncing data_manager_init" by (simp add: data_manager_init_def)
  have z: "\<And>e. get_unsynced_count (count_out e) (db data_manager_init) = 0"
    by (simp add: data_manager_init_def init_database_def get_unsynced_count_def
        split: sqlite.splits)
  have zs: "\<forall>e'\<in>set [sample_sync_env True, sample_sync_env False, sample_sync_env True].
      get_unsynced_count (count_out e') (db data_manager_init) = 0"
    by (simp add: z)
  have r: "\<And>x::effect list. replicate
      (length [sample_sync_env True, sample_sync_env False, sample_sync_env True]) x = [x, x, x]"
    by simp
  show ?thesis
    using sync_with_nothing_unsynced_is_noop [OF i z zs, of "sample_sync_env True"]
    unfolding r .
qed

section \<open>The behavioural sampler\<close>

lemma session_minutes_ge_1: "1 \<le> session_minutes now st"
  by (simp add: session_minutes_def)

lemma rate_started:
  "session_start_time s = Some st \<Longrightarrow>
   d_blinks_per_minute (get_current_data now s) = real_of_int (total_blinks s) / session_minutes now st"
  by (simp add: get_current_data_def)

text \<open>
  Claim C6. With a session started at \<open>st\<close>, the rate in the snapshot taken at \<open>now\<close> is
  \<open>total_blinks / max 1 elapsed_minutes\<close>, where the elapsed minutes are
  \<open>total_seconds (now - st) / 60\<close>. The divisor is at least 1, so it is never zero, and for
  the same start and the same \<open>now\<close> a larger blink count never gives a smaller rate.
\<close>

theorem blinks_per_minute_floor_and_monotone:
  assumes "session_start_time s = Some st"
  shows "d_blinks_per_minute (get_current_data now s)
           = real_of_int (total_blinks s) / max 1 (total_seconds (now - st) / 60)
       \<and> session_minutes now st = max 1 (total_seconds (now - st) / 60)
       \<and> 1 \<le> session_minutes now st
       \<and> (\<forall>s'. session_start_time s' = Some st \<and> total_blinks s \<le> total_blinks s' \<longrightarrow>
              d_blinks_per_minute (get_current_data now s)
               \<le> d_blinks_per_minute (get_current_data now s'))"
proof -
  have pos: "0 \<le> session_minutes now st"
    using session_minutes_ge_1[of now st] by linarith
  have mono: "\<And>s'. session_start_time s' = Some st \<Longrightarrow> total_blinks s \<le> total_blinks s' \<Longrightarrow>
      d_blinks_per_minute (get_current_data now s) \<le> d_blinks_per_minute (get_current_data now s')"
    using assms pos by (simp add: rate_started divide_right_mono)
  show ?thesis
    using assms mono session_minutes_ge_1[of now st]
    by (simp add: rate_started) (simp add: session_minutes_def)
qed

lemma sample_tracker_state:
  "sample_tracker =
     \<lparr> is_running = True, camera_available = False, total_blinks = 4,
       session_start_time = Some 0, last_blink_time = Some 390000000,
       blink_history = [120000000, 360000000, 390000000],
       should_stop = False, simulation_mode = True \<rparr>"
  by (simp add: sample_tracker_def sample_blink_times_def start_def eye_tracker_init_def
      record_blink_def minutes_def)

lemma sample_snapshot_duration:
  "d_session_duration (get_current_data 420000000 sample_tracker) = ''0:07:00''"
  "d_session_duration (get_current_data 90061500000 sample_tracker) = ''1 day, 1:01:01''"
  by (simp_all add: sample_tracker_state get_current_data_def str_timedelta_def
      split_dot_first_def fmt_d_def fmt_0d_def fmt_nat.simps digit_char_def Let_def)

theorem blinks_per_minute_floor_and_monotone_witness:
  "d_blinks_per_minute (get_current_data 420000000 sample_tracker) = 4 / 7
   \<and> d_blinks_per_minute (get_current_data 20000000 sample_tracker) = 4
   \<and> d_blinks_per_minute (get_current_data 420000000 sample_tracker)
       \<le> d_blinks_per_minute (get_current_data 420000000 (record_blink 400000000 sample_tracker))"
proof -
  have st: "session_start_time sample_tracker = Some 0"
    by (simp add: sample_tracker_state)
  have st': "session_start_time (record_blink 400000000 sample_tracker) = Some 0
      \<and> total_blinks sample_tracker \<le> total_blinks (record_blink 400000000 sample_tracker)"
    by (simp add: sample_tracker_state record_blink_def Let_def minutes_def)
  show ?thesis
    using blinks_per_minute_floor_and_monotone [OF st, of 420000000]
          blinks_per_minute_floor_and_monotone [OF st, of 20000000] st'
    by (simp add: sample_tracker_state total_seconds_def)
qed

lemma record_blinks_snoc: "record_blinks (ts @ [t]) s = record_blink t (record_blinks ts s)"
  by (induction ts arbitrary: s) auto

lemma total_blinks_record_blinks:
  "total_blinks (record_blinks ts s) = total_blinks s + int (length ts)"
  by (induction ts arbitrary: s) (auto simp: record_blink_def Let_def)

lemma window_record_blinks:
  "sorted ts \<Longrightarrow> ts \<noteq> [] \<Longrightarrow>
   blink_history (record_blinks ts s) = filter (\<lambda>t. t > last ts - minutes 5) (blink_history s @ ts)
   \<and> last_blink_time (record_blinks ts s) = Some (last ts)"
proof (induction ts rule: rev_induct)
  case Nil
  then show ?case by simp
next
  case (snoc x xs)
  show ?case
  proof (cases "xs = []")
    case True
    then show ?thesis by (simp add: record_blink_def Let_def)
  next
    case False
    from snoc.prems False have sx: "sorted xs" and le: "last xs \<le> x"
      by (auto simp: sorted_append)
    from snoc.IH[OF sx False]
    have h: "blink_history (record_blinks xs s)
               = filter (\<lambda>t. t > last xs - minutes 5) (blink_history s @ xs)"
      by simp
    from le have eq: "\<And>t. (last xs - minutes 5 < t \<and> x - minutes 5 < t) = (x - minutes 5 < t)"
      by auto
    show ?thesis
      by (simp add: record_blinks_snoc record_blink_def Let_def h eq)
  qed
qed

text \<open>
  Claim C7. From a state with no blinks counted and an empty history (as \<^verbatim>\<open>start\<close> and
  \<^verbatim>\<open>reset_session\<close> leave it), recording blinks at times \<open>t\<^sub>1 \<le> \<dots> \<le> t\<^sub>n\<close> makes
  \<open>total_blinks\<close> equal to \<open>n\<close>; and if \<open>n > 0\<close>, the last blink time is \<open>t\<^sub>n\<close> and the history
  holds exactly the recorded times later than five minutes before \<open>t\<^sub>n\<close>, the clock value of the
  latest recording, in their order.
\<close>

theorem recorded_blinks_count_and_window:
  assumes "total_blinks s = 0" and "blink_history s = []" and "sorted ts"
  shows "total_blinks (record_blinks ts s) = int (length ts)
       \<and> (ts \<noteq> [] \<longrightarrow>
            last_blink_time (record_blinks ts s) = Some (last ts)
          \<and> blink_history (record_blinks ts s) = filter (\<lambda>t. t > last ts - minutes 5) ts)"
  using assms window_record_blinks[of ts s]
  by (simp add: total_blinks_record_blinks)

theorem recorded_blinks_count_and_window_witness:
  "total_blinks (record_blinks sample_blink_times (fst (start False 0 eye_tracker_init))) = 4
   \<and> last_blink_time (record_blinks sample_blink_times (fst (start False 0 eye_tracker_init)))
       = Some 390000000
   \<and> blink_history (record_blinks sample_blink_times (fst (start False 0 eye_tracker_init)))
       = [120000000, 360000000, 390000000]"
proof -
  have a: "total_blinks (fst (start False 0 eye_tracker_init)) = 0"
          "blink_history (fst (start False 0 eye_tracker_init)) = []"
    by (simp_all add: start_def eye_tracker_init_def)
  have s: "sorted sample_blink_times" by (simp add: sample_blink_times_def)
  have f: "sample_blink_times \<noteq> []"
     "last sample_blink_times = 390000000"
     "int (length sample_blink_times) = 4"
     "filter (\<lambda>t. t > 390000000 - minutes 5) sample_blink_times = [120000000, 360000000, 390000000]"
    by (simp_all add: sample_blink_times_def minutes_def)
  show ?thesis
    using recorded_blinks_count_and_window [OF a s] f by simp
qed

text \<open>
  Claim C10. While no session start time is set, \<^verbatim>\<open>get_current_data\<close> returns a snapshot
  whose rate is 0 and whose duration is the string \<open>00:00:00\<close>; the other fields are read
  off the state.
\<close>

theorem snapshot_before_start:
  assumes "session_start_time s = None"
  shows "d_blinks_per_minute (get_current_data now s) = 0
       \<and> d_session_duration (get_current_data now s) = ''00:00:00''
       \<and> d_total_blinks (get_current_data now s) = total_blinks s
       \<and> d_last_blink (get_current_data now s) = last_blink_time s
       \<and> d_is_tracking (get_current_data now s) = is_running s"
  using assms by (simp add: get_current_data_def)

theorem snapshot_before_start_witness:
  "get_current_data 1730000000000000 eye_tracker_init =
     \<lparr> d_total_blinks = 0, d_blinks_per_minute = 0, d_session_duration = ''00:00:00'',
       d_last_blink = None, d_is_tracking = False, d_camera_available = False,
       d_simulation_mode = False \<rparr>"
proof -
  have n: "session_start_time eye_tracker_init = None" by (simp add: eye_tracker_init_def)
  show ?thesis
    using snapshot_before_start [OF n, of 1730000000000000]
    by (simp add: get_current_data_def eye_tracker_init_def)
qed

section \<open>The telemetry sampler\<close>

lemma tick_state_is_snapshot: "fst (monitoring_tick r m) = snd (monitoring_tick r m)"
  by (simp add: monitoring_tick_def Let_def)

lemma update_cpu_other:
  "memory_percent (update_cpu_metrics r m) = memory_percent m"
  "memory_used_mb (update_cpu_metrics r m) = memory_used_mb m"
  "memory_total_mb (update_cpu_metrics r m) = memory_total_mb m"
  "disk_usage_percent (update_cpu_metrics r m) = disk_usage_percent m"
  "network_available (update_cpu_metrics r m) = network_available m"
  "battery_percent (update_cpu_metrics r m) = battery_percent m"
  "power_connected (update_cpu_metrics r m) = power_connected m"
  "process_count (update_cpu_metrics r m) = process_count m"
  by (simp_all add: update_cpu_metrics_def split: sum.splits)

lemma update_memory_other:
  "cpu_percent (update_memory_metrics r m) = cpu_percent m"
  "disk_usage_percent (update_memory_metrics r m) = disk_usage_percent m"
  "network_available (update_memory_metrics r m) = network_available m"
  "battery_percent (update_memory_metrics r m) = battery_percent m"
  "power_connected (update_memory_metrics r m) = power_connected m"
  "process_count (update_memory_metrics r m) = process_count m"
  by (simp_all add: update_memory_metrics_def split: sum.splits)

lemma update_disk_other:
  "cpu_percent (update_disk_metrics r m) = cpu_percent m"
  "memory_percent (update_disk_metrics r m) = memory_percent m"
  "memory_used_mb (update_disk_metrics r m) = memory_used_mb m"
  "memory_total_mb (update_disk_metrics r m) = memory_total_mb m"
  "network_available (update_disk_metrics r m) = network_available m"
  "battery_percent (update_disk_metrics r m) = battery_percent m"
  "power_connected (update_disk_metrics r m) = power_connected m"
  "process_count (update_disk_metrics r m) = process_count m"
  by (simp_all add: update_disk_metrics_def split: sum.splits)

lemma update_network_other:
  "cpu_percent (update_network_status r m) = cpu_percent m"
  "memory_percent (update_network_status r m) = memory_percent m"
  "memory_used_mb (update_network_status r m) = memory_used_mb m"
  "memory_total_mb (update_network_status r m) = memory_total_mb m"
  "disk_usage_percent (update_network_status r m) = disk_usage_percent m"
  "battery_percent (update_network_status r m) = battery_percent m"
  "power_connected (update_network_status r m) = power_connected m"
  "process_count (update_network_status r m) = process_count m"
  by (simp_all add: update_network_status_def split: sum.splits exn.splits)

lemma update_battery_other:
  "cpu_percent (update_battery_metrics r m) = cpu_percent m"
  "memory_percent (update_battery_metrics r m) = memory_percent m"
  "memory_used_mb (update_battery_metrics r m) = memory_used_mb m"
  "memory_total_mb (update_battery_metrics r m) = memory_total_mb m"
  "disk_usage_percent (update_battery_metrics r m) = disk_usage_percent m"
  "network_available (update_battery_metrics r m) = network_available m"
  "process_count (update_battery_metrics r m) = process_count m"
  by (simp_all add: update_battery_metrics_def split: sum.splits option.splits)

lemma update_process_other:
  "cpu_percent (update_process_count r m) = cpu_percent m"
  "memory_percent (update_process_count r m) = memory_percent m"
  "memory_used_mb (update_process_count r m) = memory_used_mb m"
  "memory_total_mb (update_process_count r m) = memory_total_mb m"
  "disk_usage_percent (update_process_count r m) = disk_usage_percent m"
  "network_available (update_process_count r m) = network_available m"
  "battery_percent (update_process_count r m) = battery_percent m"
  "power_connected (update_process_count r m) = power_connected m"
  by (simp_all add: update_process_count_def split: sum.splits)

lemmas update_other = update_cpu_other update_memory_other update_disk_other
  update_network_other update_battery_other update_process_other

lemma tick_cpu:
  "cpu_percent (snd (monitoring_tick r m)) = (case cpu_read r of Inr v \<Rightarrow> v | Inl e \<Rightarrow> cpu_percent m)"
  by (simp add: monitoring_tick_def Let_def update_other)
     (simp add: update_cpu_metrics_def split: sum.splits)

lemma tick_memory:
  "memory_read r = Inr vm \<Longrightarrow>
     memory_percent (snd (monitoring_tick r m)) = vm_percent vm
   \<and> memory_used_mb (snd (monitoring_tick r m)) = real_of_int (vm_used vm) / (1024 * 1024)
   \<and> memory_total_mb (snd (monitoring_tick r m)) = real_of_int (vm_total vm) / (1024 * 1024)"
  by (simp add: monitoring_tick_def Let_def update_other)
     (simp add: update_memory_metrics_def)

lemma tick_disk:
  "has_disk_usage r \<Longrightarrow> disk_read r = Inr d \<Longrightarrow> du_total d \<noteq> 0 \<Longrightarrow>
     disk_usage_percent (snd (monitoring_tick r m))
       = real_of_int (du_used d) / real_of_int (du_total d) * 100"
  by (simp add: monitoring_tick_def Let_def update_other)
     (simp add: update_disk_metrics_def)

lemma tick_network:
  "network_available (snd (monitoring_tick r m)) = (case network_probe r of Inr u \<Rightarrow> True | Inl e \<Rightarrow> False)"
  by (simp add: monitoring_tick_def Let_def update_other)
     (simp add: update_network_status_def split: sum.splits exn.splits)

lemma tick_battery:
  "battery_percent (snd (monitoring_tick r m)) = battery_percent (update_battery_metrics r m)"
  "power_connected (snd (monitoring_tick r m)) = power_connected (update_battery_metrics r m)"
  by (simp_all add: monitoring_tick_def Let_def update_other)
     (simp_all add: update_battery_metrics_def update_other split: sum.splits option.splits)

lemma tick_process_count:
  "pids_read r = Inr n \<Longrightarrow> process_count (snd (monitoring_tick r m)) = int n"
  by (simp add: monitoring_tick_def Let_def update_process_count_def)

lemma loop_length: "length (snd (monitoring_loop rs m)) = length rs"
  by (induction rs arbitrary: m) (simp_all add: split_beta Let_def)

lemma loop_offline:
  "\<forall>r\<in>set rs. \<exists>err. network_probe r = Inl err \<Longrightarrow>
   \<forall>snap\<in>set (snd (monitoring_loop rs m)). \<not> network_available snap"
proof (induction rs arbitrary: m)
  case Nil
  then show ?case by simp
next
  case (Cons r rs)
  from Cons.prems obtain err where "network_probe r = Inl err" by auto
  then have "\<not> network_available (snd (monitoring_tick r m))"
    by (simp add: tick_network)
  moreover from Cons.prems have "\<forall>r\<in>set rs. \<exists>err. network_probe r = Inl err" by simp
  from Cons.IH[OF this]
  have "\<forall>snap\<in>set (snd (monitoring_loop rs (fst (monitoring_tick r m)))). \<not> network_available snap" .
  ultimately show ?case by (simp add: split_beta Let_def)
qed

text \<open>
  Claim C8. In every tick, a network probe that raises, whatever it raises, leaves
  \<open>network_available\<close> false in the snapshot. Each metric whose own read succeeds is
  refreshed from that read whatever happens to the other reads. A tick always ends in a
  snapshot: the loop emits one per iteration, and while every probe fails every snapshot
  reports the network as unavailable.
\<close>

theorem tick_survives_failed_reads:
  "(\<forall>err. network_probe r = Inl err \<longrightarrow> \<not> network_available (snd (monitoring_tick r m)))
   \<and> (network_probe r = Inr () \<longrightarrow> network_available (snd (monitoring_tick r m)))
   \<and> (\<forall>v. cpu_read r = Inr v \<longrightarrow> cpu_percent (snd (monitoring_tick r m)) = v)
   \<and> (\<forall>vm. memory_read r = Inr vm \<longrightarrow>
          memory_percent (snd (monitoring_tick r m)) = vm_percent vm
        \<and> memory_used_mb (snd (monitoring_tick r m)) = real_of_int (vm_used vm) / (1024 * 1024)
        \<and> memory_total_mb (snd (monitoring_tick r m)) = real_of_int (vm_total vm) / (1024 * 1024))
   \<and> (\<forall>d. has_disk_usage r \<and> disk_read r = Inr d \<and> du_total d \<noteq> 0 \<longrightarrow>
          disk_usage_percent (snd (monitoring_tick r m))
            = real_of_int (du_used d) / real_of_int (du_total d) * 100)
   \<and> (\<forall>b. has_sensors_battery r \<and> battery_read r = Inr (Some b) \<longrightarrow>
          battery_percent (snd (monitoring_tick r m)) = Some (bat_percent b)
        \<and> power_connected (snd (monitoring_tick r m)) = bat_power_plugged b)
   \<and> (\<forall>n. pids_read r = Inr n \<longrightarrow> process_count (snd (monitoring_tick r m)) = int n)
   \<and> fst (monitoring_tick r m) = snd (monitoring_tick r m)
   \<and> length (snd (monitoring_loop rs m)) = length rs
   \<and> ((\<forall>r\<in>set rs. \<exists>err. network_probe r = Inl err) \<longrightarrow>
        (\<forall>snap\<in>set (snd (monitoring_loop rs m)). \<not> network_available snap))"
proof -
  have bat: "\<forall>b. has_sensors_battery r \<and> battery_read r = Inr (Some b) \<longrightarrow>
          battery_percent (snd (monitoring_tick r m)) = Some (bat_percent b)
        \<and> power_connected (snd (monitoring_tick r m)) = bat_power_plugged b"
    by (simp add: tick_battery update_battery_metrics_def)
  show ?thesis
    using bat tick_memory[of r _ m] tick_disk[of r _ m] tick_process_count[of r _ m]
      loop_offline[of rs m]
    by (simp add: tick_cpu tick_network tick_state_is_snapshot loop_length)
qed

theorem tick_survives_failed_reads_witness:
  "\<not> network_available (snd (monitoring_tick sample_reads_offline_desktop current_metrics_init))
   \<and> cpu_read sample_reads_offline_desktop = Inl Other_exception
   \<and> memory_percent (snd (monitoring_tick sample_reads_offline_desktop current_metrics_init)) = 50
   \<and> memory_used_mb (snd (monitoring_tick sample_reads_offline_desktop current_metrics_init)) = 2
   \<and> disk_usage_percent (snd (monitoring_tick sample_reads_offline_desktop current_metrics_init)) = 25
   \<and> process_count (snd (monitoring_tick sample_reads_offline_desktop current_metrics_init)) = 120
   \<and> length (snd (monitoring_loop
          [sample_reads_offline_desktop, sample_reads_offline_desktop] current_metrics_init)) = 2
   \<and> list_all (\<lambda>snap. \<not> network_available snap)
        (snd (monitoring_loop
          [sample_reads_offline_desktop, sample_reads_offline_desktop] current_metrics_init))"
  using tick_survives_failed_reads
    [of sample_reads_offline_desktop current_metrics_init
        "[sample_reads_offline_desktop, sample_reads_offline_desktop]"]
  by (simp add: sample_reads_offline_desktop_def list_all_iff del: monitoring_loop.simps)

text \<open>
  Claim C9, as the code has it. On a host without a battery (the battery query returns no
  battery), the snapshot of the tick reports the battery percentage as absent, not as zero
  or any other number, and reports the power-connected state as true.
\<close>

theorem no_battery_reports_power_connected:
  assumes "has_sensors_battery r" and "battery_read r = Inr None"
  shows "battery_percent (snd (monitoring_tick r m)) = None
       \<and> power_connected (snd (monitoring_tick r m)) = Some True"
  using assms by (simp add: tick_battery update_battery_metrics_def)

theorem no_battery_reports_power_connected_witness:
  "has_sensors_battery sample_reads_offline_desktop
   \<and> battery_read sample_reads_offline_desktop = Inr None
   \<and> battery_percent (snd (monitoring_tick sample_reads_offline_desktop current_metrics_init))
       = None
   \<and> power_connected (snd (monitoring_tick sample_reads_offline_desktop current_metrics_init))
       = Some True"
proof -
  have h: "has_sensors_battery sample_reads_offline_desktop"
    by (simp add: sample_reads_offline_desktop_def)
  have b: "battery_read sample_reads_offline_desktop = Inr None"
    by (simp add: sample_reads_offline_desktop_def)
  show ?thesis
    using h b no_battery_reports_power_connected [OF h b, of current_metrics_init]
    by simp
qed

text \<open>
  The claim as written, that both fields are absent on a host without a battery, fails on
  the first tick of such a host.
\<close>

theorem battery_and_power_both_absent_counterexample:
  "\<not> (battery_percent (snd (monitoring_tick sample_reads_offline_desktop current_metrics_init)) = None
      \<and> power_connected (snd (monitoring_tick sample_reads_offline_desktop current_metrics_init)) = None)"
  by (simp add: tick_battery update_battery_metrics_def sample_reads_offline_desktop_def)

end
